theory Spec2Isabelle
  imports Main "HOL-Library.AList" "HOL-Library.Word"
begin

section \<open>Go values\<close>

text \<open>
  A Go map is either \<open>nil\<close> or a table of entries with pairwise distinct keys. It is
  modelled as an optional association list: \<open>None\<close> is the nil map, and the order of the
  list is the order in which a \<open>range\<close> statement visits the entries. Go leaves that order
  unspecified, so a statement about every list with the same entries is a statement about
  every order the runtime may choose.
\<close>

type_synonym ('k, 'v) gomap = "('k \<times> 'v) list option"

text \<open>The entries a \<open>range\<close> over the map visits; ranging over a nil map visits nothing.\<close>

definition range_entries :: "('k, 'v) gomap \<Rightarrow> ('k \<times> 'v) list" where
  "range_entries m = (case m of None \<Rightarrow> [] | Some ps \<Rightarrow> ps)"

text \<open>The two-result index expression \<open>v, ok := m[k]\<close>; \<open>None\<close> stands for \<open>ok = false\<close>.\<close>

definition lookup :: "('k, 'v) gomap \<Rightarrow> 'k \<Rightarrow> 'v option" where
  "lookup m k = (case m of None \<Rightarrow> None | Some ps \<Rightarrow> map_of ps k)"

text \<open>
  The index expression \<open>m[k]\<close>: the element type's zero value when the key is absent or the
  map is nil. It never panics.
\<close>

definition index :: "('k, 'v) gomap \<Rightarrow> 'k \<Rightarrow> 'v \<Rightarrow> 'v" where
  "index m k zero = (case lookup m k of None \<Rightarrow> zero | Some v \<Rightarrow> v)"

text \<open>A well-formed Go map holds every key once.\<close>

definition wf_map :: "('k, 'v) gomap \<Rightarrow> bool" where
  "wf_map m = distinct (map fst (range_entries m))"

text \<open>
  A \<open>float64\<close> is carried as its IEEE 754 bit pattern. The library only stores and copies
  rates; it never computes with them.
\<close>

type_synonym float64 = "64 word"

text \<open>
  \<open>strings.Join\<close> of the standard library: the elements in order, the separator between
  each two neighbours.
\<close>

fun Join :: "string list \<Rightarrow> string \<Rightarrow> string" where
  "Join [] sep = ''''"
| "Join [e] sep = e"
| "Join (e # es) sep = e @ sep @ Join es sep"

subsection \<open>Dates\<close>

text \<open>
  Of a \<open>time.Time\<close> the request encoder reads the calendar date only, through
  \<open>Format("2006-01-02")\<close>. A time is therefore modelled by the year, month and day that
  \<open>t.Date()\<close> reports. The zero \<open>time.Time\<close> is January 1 of year 1.
\<close>

record Time =
  Year :: int
  Month :: nat
  Day :: nat

definition Time_zero :: Time where
  "Time_zero = \<lparr>Year = 1, Month = 1, Day = 1\<rparr>"

text \<open>The decimal digits of a natural number, most significant first; \<open>0\<close> has one digit.\<close>

fun digits :: "nat \<Rightarrow> string" where
  "digits n =
     (if n < 10 then [char_of (48 + n)]
      else digits (n div 10) @ [char_of (48 + n mod 10)])"

declare digits.simps [simp del]

text \<open>
  \<open>appendInt\<close> of package \<open>time\<close>: a minus sign for a negative number, then the digits,
  padded with zeros on the left up to the given width.
\<close>

definition appendInt :: "int \<Rightarrow> nat \<Rightarrow> string" where
  "appendInt x width =
     (let ds = digits (nat \<bar>x\<bar>)
      in (if x < 0 then ''-'' else '''') @ replicate (width - length ds) CHR ''0'' @ ds)"

text \<open>\<open>t.Format("2006-01-02")\<close>: four-digit year, two-digit month, two-digit day.\<close>

definition Format_2006_01_02 :: "Time \<Rightarrow> string" where
  "Format_2006_01_02 t =
     appendInt (Year t) 4 @ ''-'' @ appendInt (int (Month t)) 2 @ ''-'' @ appendInt (int (Day t)) 2"

section \<open>Requests\<close>

text \<open>
  A \<open>[]string\<close> is modelled as a list: the encoders read a slice through \<open>len\<close> and
  \<open>strings.Join\<close> only, and neither tells a nil slice from an empty one.

  Each encoder builds its parameter map from a map literal, so the map is never nil, and
  \<open>p[k] = v\<close> is the update of the association list.
\<close>

record LatestRequest =
  BaseCurrency :: string
  Currencies :: "string list"

definition LatestRequest_toParams :: "LatestRequest \<Rightarrow> (string, string) gomap" where
  "LatestRequest_toParams r =
     (let p = [];
          p = (if LatestRequest.BaseCurrency r \<noteq> ''''
               then AList.update ''base_currency'' (LatestRequest.BaseCurrency r) p else p);
          p = (if length (LatestRequest.Currencies r) > 0
               then AList.update ''currencies'' (Join (LatestRequest.Currencies r) '','') p else p)
      in Some p)"

record CurrenciesRequest =
  Currencies :: "string list"

definition CurrenciesRequest_toParams :: "CurrenciesRequest \<Rightarrow> (string, string) gomap" where
  "CurrenciesRequest_toParams r =
     (let p = [];
          p = (if length (CurrenciesRequest.Currencies r) > 0
               then AList.update ''currencies'' (Join (CurrenciesRequest.Currencies r) '','') p
               else p)
      in Some p)"

record HistoricalRequest =
  Date :: Time
  BaseCurrency :: string
  Currencies :: "string list"

definition HistoricalRequest_toParams :: "HistoricalRequest \<Rightarrow> (string, string) gomap" where
  "HistoricalRequest_toParams r =
     (let p = [(''date'', Format_2006_01_02 (HistoricalRequest.Date r))];
          p = (if HistoricalRequest.BaseCurrency r \<noteq> ''''
               then AList.update ''base_currency'' (HistoricalRequest.BaseCurrency r) p else p);
          p = (if length (HistoricalRequest.Currencies r) > 0
               then AList.update ''currencies'' (Join (HistoricalRequest.Currencies r) '','') p
               else p)
      in Some p)"

section \<open>Responses\<close>

text \<open>
  Every endpoint has a wire structure, which the JSON decoder fills, and a public
  structure, which the client returns. A Go \<open>int\<close> field is modelled as an integer: the
  fields are copied, never computed with.
\<close>

record latestResponse =
  Data :: "(string, float64) gomap"

record LatestResponse =
  Rates :: "(string, float64) gomap"

definition toLatestResponse :: "latestResponse \<Rightarrow> LatestResponse" where
  "toLatestResponse r = \<lparr>Rates = latestResponse.Data r\<rparr>"

record currencyResponseItem =
  Symbol :: string
  Name :: string
  SymbolNative :: string
  DecimalDigits :: int
  Rounding :: int
  Code :: string
  NamePlural :: string

record currenciesResponse =
  Data :: "(string, currencyResponseItem) gomap"

record CurrencyItem =
  Symbol :: string
  Name :: string
  SymbolNative :: string
  DecimalDigits :: int
  Rounding :: int
  Code :: string
  NamePlural :: string

record CurrenciesResponse =
  Currencies :: "(string, CurrencyItem) gomap"

text \<open>The body of the loop of \<open>toCurrenciesResponse\<close>: the item built from a wire item.\<close>

definition toCurrencyItem :: "currencyResponseItem \<Rightarrow> CurrencyItem" where
  "toCurrencyItem value =
     \<lparr>CurrencyItem.Symbol = currencyResponseItem.Symbol value,
      CurrencyItem.Name = currencyResponseItem.Name value,
      CurrencyItem.SymbolNative = currencyResponseItem.SymbolNative value,
      CurrencyItem.DecimalDigits = currencyResponseItem.DecimalDigits value,
      CurrencyItem.Rounding = currencyResponseItem.Rounding value,
      CurrencyItem.Code = currencyResponseItem.Code value,
      CurrencyItem.NamePlural = currencyResponseItem.NamePlural value\<rparr>"

text \<open>
  \<open>make\<close> returns an empty map that is not nil; the loop then stores one item for every
  entry it visits.
\<close>

definition toCurrenciesResponse :: "currenciesResponse \<Rightarrow> CurrenciesResponse" where
  "toCurrenciesResponse r =
     (let currencies = [];
          currencies =
            fold (\<lambda>(key, value) currencies. AList.update key (toCurrencyItem value) currencies)
              (range_entries (currenciesResponse.Data r)) currencies
      in \<lparr>CurrenciesResponse.Currencies = Some currencies\<rparr>)"

record historicalResponse =
  Data :: "(string, (string, float64) gomap) gomap"

record HistoricalResponse =
  Rates :: "(string, float64) gomap"

text \<open>
  The loop of \<open>toHistoricalResponse\<close> leaves at its first iteration: \<open>firstKey\<close> is the key
  of the first entry visited, or stays the empty string when there is no entry. The zero
  value of the element type \<open>map[string]float64\<close> is the nil map.
\<close>

definition toHistoricalResponse :: "historicalResponse \<Rightarrow> HistoricalResponse" where
  "toHistoricalResponse r =
     (let firstKey = '''';
          firstKey =
            (case range_entries (historicalResponse.Data r) of
               [] \<Rightarrow> firstKey
             | (key, _) # _ \<Rightarrow> key)
      in \<lparr>HistoricalResponse.Rates = index (historicalResponse.Data r) firstKey None\<rparr>)"

record statusResponse_Month =
  Total :: int
  Used :: int
  Remaining :: int

record statusResponse_Quotas =
  Month :: statusResponse_Month

record statusResponse =
  Quotas :: statusResponse_Quotas

record StatusItem =
  Total :: int
  Used :: int
  Remaining :: int

record StatusResponse =
  Month :: StatusItem

definition toStatusResponse :: "statusResponse \<Rightarrow> StatusResponse" where
  "toStatusResponse r =
     \<lparr>StatusResponse.Month =
        \<lparr>StatusItem.Total = statusResponse_Month.Total (statusResponse_Quotas.Month (Quotas r)),
         StatusItem.Used = statusResponse_Month.Used (statusResponse_Quotas.Month (Quotas r)),
         StatusItem.Remaining =
           statusResponse_Month.Remaining (statusResponse_Quotas.Month (Quotas r))\<rparr>\<rparr>"

subsection \<open>Zero values\<close>

definition LatestResponse_zero :: LatestResponse where
  "LatestResponse_zero = \<lparr>LatestResponse.Rates = None\<rparr>"

definition CurrenciesResponse_zero :: CurrenciesResponse where
  "CurrenciesResponse_zero = \<lparr>CurrenciesResponse.Currencies = None\<rparr>"

definition HistoricalResponse_zero :: HistoricalResponse where
  "HistoricalResponse_zero = \<lparr>HistoricalResponse.Rates = None\<rparr>"

definition StatusResponse_zero :: StatusResponse where
  "StatusResponse_zero =
     \<lparr>StatusResponse.Month = \<lparr>StatusItem.Total = 0, StatusItem.Used = 0, StatusItem.Remaining = 0\<rparr>\<rparr>"

section \<open>The client\<close>

text \<open>
  The two sentinel errors of the package, and the errors that come from outside it (the
  transport, the JSON decoder), told apart by their message.
\<close>

datatype error = ErrInvalidStatusCode | ErrUnauthorized | Foreign string

text \<open>A call either returns or panics.\<close>

datatype 'a outcome = Panicked | Returned 'a

text \<open>
  Of an \<open>http.Response\<close> the client reads the status code and the body. The body is an
  \<open>io.ReadCloser\<close>; its type is left open.
\<close>

record 'b Response =
  StatusCode :: int
  Body :: 'b

text \<open>
  An \<open>*http.Client\<close> is \<open>nil\<close> or a client, and a client is what its method \<open>Do\<close>
  answers to a request: the transport's error or a response. Cancellation reaches \<open>Do\<close>
  through the context the request carries.
\<close>

type_synonym ('req, 'b) Client = "('req \<Rightarrow> error + 'b Response) option"

record ('req, 'b) v2Client =
  apiKey :: string
  httpClient :: "('req, 'b) Client"
  baseURL :: string

text \<open>
  \<open>url.Values\<close> is a map from a key to the list of its values. \<open>Add\<close> appends a value to
  the list of its key.
\<close>

type_synonym Values = "(string \<times> string list) list"

definition Values_Add :: "Values \<Rightarrow> string \<Rightarrow> string \<Rightarrow> Values" where
  "Values_Add q key value = AList.update key (index (Some q) key [] @ [value]) q"

text \<open>
  The functions of \<open>net/http\<close> and \<open>net/url\<close> that \<open>doRequest\<close> calls. They are not part
  of this package, so they are parameters of the model; the request type is theirs.
  The request body is an \<open>io.Reader\<close>, \<open>None\<close> when nil.
\<close>

record ('ctx, 'req) net_http =
  NewRequestWithContext :: "'ctx \<Rightarrow> string \<Rightarrow> string \<Rightarrow> string option \<Rightarrow> error + 'req"
  Header_Set :: "'req \<Rightarrow> string \<Rightarrow> string \<Rightarrow> 'req"
  URL_Query :: "'req \<Rightarrow> Values"
  Values_Encode :: "Values \<Rightarrow> string"
  set_RawQuery :: "'req \<Rightarrow> string \<Rightarrow> 'req"

text \<open>
  \<open>doRequest\<close> returns the error of \<open>NewRequestWithContext\<close> or of \<open>Do\<close> as it is.
  Calling \<open>Do\<close> on a nil \<open>*http.Client\<close> panics.
\<close>

definition doRequest ::
  "('ctx, 'req) net_http \<Rightarrow> ('req, 'b) v2Client \<Rightarrow> 'ctx \<Rightarrow> string \<Rightarrow> string \<Rightarrow> string option \<Rightarrow>
   (string, string) gomap \<Rightarrow> (error + 'b Response) outcome" where
  "doRequest lib v ctx method path body query =
     (let url = baseURL v @ path
      in case NewRequestWithContext lib ctx method url body of
           Inl err \<Rightarrow> Returned (Inl err)
         | Inr req \<Rightarrow>
             (let req = Header_Set lib req ''apikey'' (apiKey v);
                  req = Header_Set lib req ''Content-Type'' ''application/json'';
                  q = URL_Query lib req;
                  q = fold (\<lambda>(k, v) q. Values_Add q k v) (range_entries query) q;
                  req = set_RawQuery lib req (Values_Encode lib q)
              in case httpClient v of
                   None \<Rightarrow> Panicked
                 | Some Do \<Rightarrow>
                     (case Do req of
                        Inl err \<Rightarrow> Returned (Inl err)
                      | Inr resp \<Rightarrow> Returned (Inr resp))))"

text \<open>
  \<open>json.NewDecoder(res.Body).Decode\<close> into each of the four wire structures: the decoder's
  error, or the decoded value. The decoder belongs to \<open>encoding/json\<close> and is a parameter.
\<close>

record 'b json =
  Decode_latestResponse :: "'b \<Rightarrow> error + latestResponse"
  Decode_currenciesResponse :: "'b \<Rightarrow> error + currenciesResponse"
  Decode_historicalResponse :: "'b \<Rightarrow> error + historicalResponse"
  Decode_statusResponse :: "'b \<Rightarrow> error + statusResponse"

text \<open>
  The four operations. A Go function of result type \<open>(T, error)\<close> returns a pair; the
  error is \<open>None\<close> when nil. The deferred \<open>res.Body.Close()\<close> has no part in the result.
\<close>

definition v2Client_Latest ::
  "('ctx, 'req) net_http \<Rightarrow> 'b json \<Rightarrow> ('req, 'b) v2Client \<Rightarrow> 'ctx \<Rightarrow> LatestRequest \<Rightarrow>
   (LatestResponse \<times> error option) outcome" where
  "v2Client_Latest lib js v ctx request =
     (case doRequest lib v ctx ''GET'' ''latest'' None (LatestRequest_toParams request) of
        Panicked \<Rightarrow> Panicked
      | Returned (Inl err) \<Rightarrow> Returned (LatestResponse_zero, Some err)
      | Returned (Inr res) \<Rightarrow>
          if StatusCode res \<noteq> 200 then
            (if StatusCode res = 401 then Returned (LatestResponse_zero, Some ErrUnauthorized)
             else Returned (LatestResponse_zero, Some ErrInvalidStatusCode))
          else
            (case Decode_latestResponse js (Body res) of
               Inl err \<Rightarrow> Returned (LatestResponse_zero, Some err)
             | Inr decodedResponse \<Rightarrow> Returned (toLatestResponse decodedResponse, None)))"

definition v2Client_Currencies ::
  "('ctx, 'req) net_http \<Rightarrow> 'b json \<Rightarrow> ('req, 'b) v2Client \<Rightarrow> 'ctx \<Rightarrow> CurrenciesRequest \<Rightarrow>
   (CurrenciesResponse \<times> error option) outcome" where
  "v2Client_Currencies lib js v ctx request =
     (case doRequest lib v ctx ''GET'' ''currencies'' None (CurrenciesRequest_toParams request) of
        Panicked \<Rightarrow> Panicked
      | Returned (Inl err) \<Rightarrow> Returned (CurrenciesResponse_zero, Some err)
      | Returned (Inr res) \<Rightarrow>
          if StatusCode res \<noteq> 200 then
            (if StatusCode res = 401 then Returned (CurrenciesResponse_zero, Some ErrUnauthorized)
             else Returned (CurrenciesResponse_zero, Some ErrInvalidStatusCode))
          else
            (case Decode_currenciesResponse js (Body res) of
               Inl err \<Rightarrow> Returned (CurrenciesResponse_zero, Some err)
             | Inr decodedResponse \<Rightarrow> Returned (toCurrenciesResponse decodedResponse, None)))"

definition v2Client_Historical ::
  "('ctx, 'req) net_http \<Rightarrow> 'b json \<Rightarrow> ('req, 'b) v2Client \<Rightarrow> 'ctx \<Rightarrow> HistoricalRequest \<Rightarrow>
   (HistoricalResponse \<times> error option) outcome" where
  "v2Client_Historical lib js v ctx request =
     (case doRequest lib v ctx ''GET'' ''historical'' None (HistoricalRequest_toParams request) of
        Panicked \<Rightarrow> Panicked
      | Returned (Inl err) \<Rightarrow> Returned (HistoricalResponse_zero, Some err)
      | Returned (Inr res) \<Rightarrow>
          if StatusCode res \<noteq> 200 then
            (if StatusCode res = 401 then Returned (HistoricalResponse_zero, Some ErrUnauthorized)
             else Returned (HistoricalResponse_zero, Some ErrInvalidStatusCode))
          else
            (case Decode_historicalResponse js (Body res) of
               Inl err \<Rightarrow> Returned (HistoricalResponse_zero, Some err)
             | Inr decodedResponse \<Rightarrow> Returned (toHistoricalResponse decodedResponse, None)))"

definition v2Client_Status ::
  "('ctx, 'req) net_http \<Rightarrow> 'b json \<Rightarrow> ('req, 'b) v2Client \<Rightarrow> 'ctx \<Rightarrow>
   (StatusResponse \<times> error option) outcome" where
  "v2Client_Status lib js v ctx =
     (case doRequest lib v ctx ''GET'' ''status'' None None of
        Panicked \<Rightarrow> Panicked
      | Returned (Inl err) \<Rightarrow> Returned (StatusResponse_zero, Some err)
      | Returned (Inr res) \<Rightarrow>
          if StatusCode res \<noteq> 200 then
            (if StatusCode res = 401 then Returned (StatusResponse_zero, Some ErrUnauthorized)
             else Returned (StatusResponse_zero, Some ErrInvalidStatusCode))
          else
            (case Decode_statusResponse js (Body res) of
               Inl err \<Rightarrow> Returned (StatusResponse_zero, Some err)
             | Inr decodedResponse \<Rightarrow> Returned (toStatusResponse decodedResponse, None)))"

subsection \<open>Construction\<close>

record ('req, 'b) ClientOption =
  HTTPClient :: "('req, 'b) Client"
  BaseURL :: string

definition WithHTTPClient ::
  "('req, 'b) ClientOption \<Rightarrow> ('req, 'b) Client \<Rightarrow> ('req, 'b) ClientOption" where
  "WithHTTPClient c httpClient' = c\<lparr>HTTPClient := httpClient'\<rparr>"

definition WithBaseURL :: "('req, 'b) ClientOption \<Rightarrow> string \<Rightarrow> ('req, 'b) ClientOption" where
  "WithBaseURL c baseURL' = c\<lparr>BaseURL := baseURL'\<rparr>"

definition Options :: "('req, 'b) ClientOption" where
  "Options = \<lparr>HTTPClient = None, BaseURL = ''''\<rparr>"

text \<open>
  \<open>NewClient\<close> reads two names it does not declare: \<open>http.DefaultClient\<close>, a variable of
  \<open>net/http\<close>, and the package constant \<open>BaseUrl\<close>, whose declaration is not among the
  sources at hand. Both are parameters. An element of \<open>opts\<close> is a \<open>*ClientOption\<close>,
  \<open>None\<close> when nil. A local variable that shares its name with a field carries a prime.
\<close>

definition NewClient ::
  "('req, 'b) Client \<Rightarrow> string \<Rightarrow> string \<Rightarrow> ('req, 'b) ClientOption option list \<Rightarrow>
   ('req, 'b) v2Client" where
  "NewClient DefaultClient BaseUrl apiKey' opts =
     (let opt = Options;
          opt = (case opts of Some opts0 # _ \<Rightarrow> opts0 | _ \<Rightarrow> opt);
          httpClient' = HTTPClient opt;
          httpClient' = (case httpClient' of None \<Rightarrow> DefaultClient | Some _ \<Rightarrow> httpClient');
          baseURL' = BaseURL opt;
          baseURL' = (if baseURL' = '''' then BaseUrl else baseURL')
      in \<lparr>apiKey = apiKey', httpClient = httpClient', baseURL = baseURL'\<rparr>)"

subsection \<open>Stand-ins for the collaborators\<close>

text \<open>
  Concrete collaborators on which the operations can be run, in the manner of the test
  server of the package's tests: a request is its URL, a context carries nothing, a body
  is its text. \<open>NewRequestWithContext\<close> refuses a method that holds a space.
\<close>

definition stub_net_http :: "(unit, string) net_http" where
  "stub_net_http =
     \<lparr>NewRequestWithContext =
        (\<lambda>ctx method url body.
           if CHR '' '' \<in> set method then Inl (Foreign ''net/http: invalid method'')
           else Inr url),
      Header_Set = (\<lambda>req key value. req),
      URL_Query = (\<lambda>req. []),
      Values_Encode = (\<lambda>q. concat (map fst q)),
      set_RawQuery = (\<lambda>req raw. req @ ''?'' @ raw)\<rparr>"

text \<open>A server that answers every request with the given status code and body.\<close>

definition stub_server :: "int \<Rightarrow> string \<Rightarrow> (string, string) Client" where
  "stub_server code body' = Some (\<lambda>req. Inr \<lparr>StatusCode = code, Body = body'\<rparr>)"

text \<open>A server that was shut down: the transport fails.\<close>

definition stub_refused :: "(string, string) Client" where
  "stub_refused = Some (\<lambda>req. Inl (Foreign ''connect: connection refused''))"

definition stub_v2Client :: "(string, string) Client \<Rightarrow> (string, string) v2Client" where
  "stub_v2Client c = \<lparr>apiKey = ''sample-api-key'', httpClient = c, baseURL = ''http://127.0.0.1/v1/''\<rparr>"

text \<open>A decoder that accepts the empty object only.\<close>

definition stub_json :: "string json" where
  "stub_json =
     \<lparr>Decode_latestResponse =
        (\<lambda>b. if b = ''{}'' then Inr \<lparr>latestResponse.Data = None\<rparr>
             else Inl (Foreign ''unexpected EOF'')),
      Decode_currenciesResponse =
        (\<lambda>b. if b = ''{}'' then Inr \<lparr>currenciesResponse.Data = None\<rparr>
             else Inl (Foreign ''unexpected EOF'')),
      Decode_historicalResponse =
        (\<lambda>b. if b = ''{}'' then Inr \<lparr>historicalResponse.Data = None\<rparr>
             else Inl (Foreign ''unexpected EOF'')),
      Decode_statusResponse =
        (\<lambda>b. if b = ''{}''
             then Inr \<lparr>Quotas = \<lparr>statusResponse_Quotas.Month =
                    \<lparr>statusResponse_Month.Total = 0, statusResponse_Month.Used = 0,
                     statusResponse_Month.Remaining = 0\<rparr>\<rparr>\<rparr>
             else Inl (Foreign ''unexpected EOF''))\<rparr>"

text \<open>Sample requests; the historical one is \<open>HistoricalRequest{}\<close>, the request of the tests.\<close>

definition sample_LatestRequest :: LatestRequest where
  "sample_LatestRequest =
     \<lparr>LatestRequest.BaseCurrency = ''USD'', LatestRequest.Currencies = [''EUR'', ''GBP'']\<rparr>"

definition sample_CurrenciesRequest :: CurrenciesRequest where
  "sample_CurrenciesRequest = \<lparr>CurrenciesRequest.Currencies = [''EUR'', ''GBP'']\<rparr>"

definition sample_HistoricalRequest :: HistoricalRequest where
  "sample_HistoricalRequest =
     \<lparr>Date = Time_zero, HistoricalRequest.BaseCurrency = '''', HistoricalRequest.Currencies = []\<rparr>"

text \<open>Sample wire values. A rate is written as its bit pattern: \<open>0x3FF0000000000000\<close> is 1.0,
  \<open>0x4000000000000000\<close> is 2.0 and \<open>0x400D626D4801F751\<close> is 3.67306.\<close>

definition sample_currencyResponseItem :: currencyResponseItem where
  "sample_currencyResponseItem =
     \<lparr>currencyResponseItem.Symbol = ''$'', currencyResponseItem.Name = ''US Dollar'',
      currencyResponseItem.SymbolNative = ''$'', currencyResponseItem.DecimalDigits = 2,
      currencyResponseItem.Rounding = 0, currencyResponseItem.Code = ''USD'',
      currencyResponseItem.NamePlural = ''US dollars''\<rparr>"

definition sample_statusResponse :: statusResponse where
  "sample_statusResponse =
     \<lparr>Quotas = \<lparr>statusResponse_Quotas.Month =
        \<lparr>statusResponse_Month.Total = 300, statusResponse_Month.Used = 71,
         statusResponse_Month.Remaining = 229\<rparr>\<rparr>\<rparr>"

definition one_date :: historicalResponse where
  "one_date =
     \<lparr>historicalResponse.Data = Some [(''2022-09-04'', Some [(''EUR'', 0x3FF0000000000000)])]\<rparr>"

definition two_dates :: historicalResponse where
  "two_dates =
     \<lparr>historicalResponse.Data =
        Some [(''2022-09-04'', Some [(''EUR'', 0x3FF0000000000000)]),
              (''2022-09-05'', Some [(''EUR'', 0x4000000000000000)])]\<rparr>"

section \<open>Properties\<close>

subsection \<open>Maps\<close>

lemma lookup_None [simp]: "lookup None k = None"
  by (simp add: lookup_def)

lemma lookup_Some [simp]: "lookup (Some ps) k = map_of ps k"
  by (simp add: lookup_def)

lemma range_entries_simps [simp]:
  "range_entries None = []" "range_entries (Some ps) = ps"
  by (simp_all add: range_entries_def)

lemma update_fresh: "k \<notin> fst ` set al \<Longrightarrow> AList.update k v al = al @ [(k, v)]"
  by (induction al) auto

text \<open>
  Storing one value for each entry of a well-formed map, into a map that holds none of its
  keys, appends the entries in the order visited.
\<close>

lemma fold_update_fresh:
  "distinct (map fst ps) \<Longrightarrow> fst ` set ps \<inter> fst ` set acc = {} \<Longrightarrow>
   fold (\<lambda>(key, value) acc. AList.update key (f value) acc) ps acc =
     acc @ map (\<lambda>(key, value). (key, f value)) ps"
proof (induction ps arbitrary: acc)
  case Nil
  then show ?case by simp
next
  case (Cons p ps)
  obtain k v where p: "p = (k, v)" by (cases p)
  from Cons.prems p have fresh: "k \<notin> fst ` set acc" by auto
  have step: "AList.update k (f v) acc = acc @ [(k, f v)]"
    using fresh by (rule update_fresh)
  have disj: "fst ` set ps \<inter> fst ` set (acc @ [(k, f v)]) = {}"
    using Cons.prems p by auto
  have "distinct (map fst ps)" using Cons.prems by simp
  from Cons.IH [OF this disj] show ?case
    by (simp add: p step)
qed

subsection \<open>Dates\<close>

lemma digits_length: "0 < k \<Longrightarrow> n < 10 ^ k \<Longrightarrow> length (digits n) \<le> k"
proof (induction n arbitrary: k rule: digits.induct)
  case (1 n)
  show ?case
  proof (cases "n < 10")
    case True
    then show ?thesis using "1.prems" by (subst digits.simps) simp
  next
    case False
    obtain j where k: "k = Suc j" using "1.prems" by (cases k) auto
    have j: "0 < j" using False "1.prems" k by (cases j) auto
    have "n < 10 * 10 ^ j" using "1.prems" k by simp
    then have "n div 10 < 10 ^ j" by (simp add: less_mult_imp_div_less mult.commute)
    from "1.IH" [OF False j this] show ?thesis
      using False k by (subst digits.simps) simp
  qed
qed

lemma appendInt_length:
  assumes "0 \<le> x" and "x < 10 ^ w" and "0 < w"
  shows "length (appendInt x w) = w"
proof -
  have "nat \<bar>x\<bar> < 10 ^ w" using assms by (simp add: nat_less_iff)
  from digits_length [OF assms(3) this] show ?thesis
    using assms by (simp add: appendInt_def Let_def)
qed

text \<open>
  For a year from 0 to 9999 the formatted date has the ten characters of \<open>YYYY-MM-DD\<close>,
  with the hyphens in their places.
\<close>

lemma Format_2006_01_02_shape:
  assumes "0 \<le> Year t" and "Year t \<le> 9999" and "Time.Month t < 100" and "Day t < 100"
  shows "length (Format_2006_01_02 t) = 10 \<and> Format_2006_01_02 t ! 4 = CHR ''-'' \<and>
         Format_2006_01_02 t ! 7 = CHR ''-''"
proof -
  have y: "length (appendInt (Year t) 4) = 4"
    using assms by (intro appendInt_length) auto
  have m: "length (appendInt (int (Time.Month t)) 2) = 2"
    using assms by (intro appendInt_length) auto
  have d: "length (appendInt (int (Day t)) 2) = 2"
    using assms by (intro appendInt_length) auto
  show ?thesis using y m d by (simp add: Format_2006_01_02_def nth_append)
qed


text \<open>\<open>Join\<close> puts the separator before every element but the first.\<close>

lemma Join_Cons: "Join (e # es) sep = e @ concat (map (\<lambda>x. sep @ x) es)"
  by (induction es arbitrary: e) simp_all

subsection \<open>The HTTP call\<close>

text \<open>
  When the request can be built and the client is not nil, \<open>doRequest\<close> returns the
  response that \<open>Do\<close> gives for the request with the two headers and the query set.
\<close>

lemma doRequest_response:
  "NewRequestWithContext lib ctx meth (baseURL v @ path) body = Inr req \<Longrightarrow>
   httpClient v = Some Do \<Longrightarrow>
   Do (set_RawQuery lib
         (Header_Set lib (Header_Set lib req ''apikey'' (apiKey v))
            ''Content-Type'' ''application/json'')
         (Values_Encode lib
            (fold (\<lambda>(k, x) q. Values_Add q k x) (range_entries query)
               (URL_Query lib
                  (Header_Set lib (Header_Set lib req ''apikey'' (apiKey v))
                     ''Content-Type'' ''application/json''))))) = Inr res \<Longrightarrow>
   doRequest lib v ctx meth path body query = Returned (Inr res)"
  by (simp add: doRequest_def Let_def)

text \<open>A client built by \<open>NewClient\<close> with a default client that is not nil never panics.\<close>

lemma NewClient_httpClient_not_nil:
  "D \<noteq> None \<Longrightarrow> httpClient (NewClient D B k opts) \<noteq> None"
  by (auto simp: NewClient_def Options_def Let_def split: option.split list.split)

lemma doRequest_returns:
  "httpClient v \<noteq> None \<Longrightarrow> doRequest lib v ctx meth path body query \<noteq> Panicked"
  by (auto simp: doRequest_def Let_def split: sum.split option.split)

subsection \<open>The stand-ins at work\<close>

lemma doRequest_stub_server:
  "CHR '' '' \<notin> set method \<Longrightarrow>
   doRequest stub_net_http (stub_v2Client (stub_server code b)) ctx method path body query =
     Returned (Inr \<lparr>StatusCode = code, Body = b\<rparr>)"
  by (simp add: doRequest_def stub_net_http_def stub_v2Client_def stub_server_def Let_def)

lemma doRequest_stub_refused:
  "CHR '' '' \<notin> set method \<Longrightarrow>
   doRequest stub_net_http (stub_v2Client stub_refused) ctx method path body query =
     Returned (Inl (Foreign ''connect: connection refused''))"
  by (simp add: doRequest_def stub_net_http_def stub_v2Client_def stub_refused_def Let_def)

lemma doRequest_stub_invalid_method:
  "CHR '' '' \<in> set method \<Longrightarrow>
   doRequest stub_net_http v ctx method path body query =
     Returned (Inl (Foreign ''net/http: invalid method''))"
  by (simp add: doRequest_def stub_net_http_def)

subsection \<open>Status classification\<close>

text \<open>
  Claim C1. In each of the four operations (Latest, Currencies, Historical, Status), for
  every request: when the HTTP call returns a response whose status code is 401, the
  operation returns the zero value of its result structure together with
  \<open>ErrUnauthorized\<close>. The body of the response and the decoder are arbitrary, so the
  result does not depend on what the body holds.
\<close>

theorem unauthorized_on_401:
  "(doRequest lib v ctx ''GET'' ''latest'' None (LatestRequest_toParams lr) = Returned (Inr res) \<and>
    StatusCode res = 401 \<longrightarrow>
    v2Client_Latest lib js v ctx lr = Returned (LatestResponse_zero, Some ErrUnauthorized)) \<and>
   (doRequest lib v ctx ''GET'' ''currencies'' None (CurrenciesRequest_toParams cr)
      = Returned (Inr res) \<and>
    StatusCode res = 401 \<longrightarrow>
    v2Client_Currencies lib js v ctx cr = Returned (CurrenciesResponse_zero, Some ErrUnauthorized)) \<and>
   (doRequest lib v ctx ''GET'' ''historical'' None (HistoricalRequest_toParams hr)
      = Returned (Inr res) \<and>
    StatusCode res = 401 \<longrightarrow>
    v2Client_Historical lib js v ctx hr = Returned (HistoricalResponse_zero, Some ErrUnauthorized)) \<and>
   (doRequest lib v ctx ''GET'' ''status'' None None = Returned (Inr res) \<and>
    StatusCode res = 401 \<longrightarrow>
    v2Client_Status lib js v ctx = Returned (StatusResponse_zero, Some ErrUnauthorized))"
  by (simp add: v2Client_Latest_def v2Client_Currencies_def v2Client_Historical_def
      v2Client_Status_def)

theorem unauthorized_on_401_witness:
  "doRequest stub_net_http (stub_v2Client (stub_server 401 ''denied'')) () ''GET'' ''latest'' None
     (LatestRequest_toParams sample_LatestRequest)
     = Returned (Inr \<lparr>StatusCode = 401, Body = ''denied''\<rparr>) \<and>
   v2Client_Latest stub_net_http stub_json (stub_v2Client (stub_server 401 ''denied'')) ()
     sample_LatestRequest
     = Returned (LatestResponse_zero, Some ErrUnauthorized) \<and>
   doRequest stub_net_http (stub_v2Client (stub_server 401 ''denied'')) () ''GET'' ''currencies''
     None (CurrenciesRequest_toParams sample_CurrenciesRequest)
     = Returned (Inr \<lparr>StatusCode = 401, Body = ''denied''\<rparr>) \<and>
   v2Client_Currencies stub_net_http stub_json (stub_v2Client (stub_server 401 ''denied'')) ()
     sample_CurrenciesRequest
     = Returned (CurrenciesResponse_zero, Some ErrUnauthorized) \<and>
   doRequest stub_net_http (stub_v2Client (stub_server 401 ''denied'')) () ''GET'' ''historical''
     None (HistoricalRequest_toParams sample_HistoricalRequest)
     = Returned (Inr \<lparr>StatusCode = 401, Body = ''denied''\<rparr>) \<and>
   v2Client_Historical stub_net_http stub_json (stub_v2Client (stub_server 401 ''denied'')) ()
     sample_HistoricalRequest
     = Returned (HistoricalResponse_zero, Some ErrUnauthorized) \<and>
   doRequest stub_net_http (stub_v2Client (stub_server 401 ''denied'')) () ''GET'' ''status''
     None None
     = Returned (Inr \<lparr>StatusCode = 401, Body = ''denied''\<rparr>) \<and>
   v2Client_Status stub_net_http stub_json (stub_v2Client (stub_server 401 ''denied'')) ()
     = Returned (StatusResponse_zero, Some ErrUnauthorized)"
  using unauthorized_on_401 [where lib = stub_net_http and js = stub_json
      and v = "stub_v2Client (stub_server 401 ''denied'')" and ctx = "()"
      and res = "\<lparr>StatusCode = 401, Body = ''denied''\<rparr>"
      and lr = sample_LatestRequest and cr = sample_CurrenciesRequest
      and hr = sample_HistoricalRequest]
  by (simp add: doRequest_stub_server)

text \<open>
  Claim C2. In each of the four operations, for every request: when the HTTP call returns
  a response whose status code is neither 200 nor 401, the operation returns the zero value
  of its result structure together with \<open>ErrInvalidStatusCode\<close>. The result is the same
  for every decoder and every body: the body is not parsed.
\<close>

theorem invalid_status_code_otherwise:
  "(doRequest lib v ctx ''GET'' ''latest'' None (LatestRequest_toParams lr) = Returned (Inr res) \<and>
    StatusCode res \<noteq> 200 \<and> StatusCode res \<noteq> 401 \<longrightarrow>
    v2Client_Latest lib js v ctx lr = Returned (LatestResponse_zero, Some ErrInvalidStatusCode)) \<and>
   (doRequest lib v ctx ''GET'' ''currencies'' None (CurrenciesRequest_toParams cr)
      = Returned (Inr res) \<and>
    StatusCode res \<noteq> 200 \<and> StatusCode res \<noteq> 401 \<longrightarrow>
    v2Client_Currencies lib js v ctx cr
      = Returned (CurrenciesResponse_zero, Some ErrInvalidStatusCode)) \<and>
   (doRequest lib v ctx ''GET'' ''historical'' None (HistoricalRequest_toParams hr)
      = Returned (Inr res) \<and>
    StatusCode res \<noteq> 200 \<and> StatusCode res \<noteq> 401 \<longrightarrow>
    v2Client_Historical lib js v ctx hr
      = Returned (HistoricalResponse_zero, Some ErrInvalidStatusCode)) \<and>
   (doRequest lib v ctx ''GET'' ''status'' None None = Returned (Inr res) \<and>
    StatusCode res \<noteq> 200 \<and> StatusCode res \<noteq> 401 \<longrightarrow>
    v2Client_Status lib js v ctx = Returned (StatusResponse_zero, Some ErrInvalidStatusCode))"
  by (simp add: v2Client_Latest_def v2Client_Currencies_def v2Client_Historical_def
      v2Client_Status_def)

theorem invalid_status_code_otherwise_witness:
  "doRequest stub_net_http (stub_v2Client (stub_server 500 ''{}'')) () ''GET'' ''latest'' None
     (LatestRequest_toParams sample_LatestRequest)
     = Returned (Inr \<lparr>StatusCode = 500, Body = ''{}''\<rparr>) \<and>
   (500 :: int) \<noteq> 200 \<and> (500 :: int) \<noteq> 401 \<and>
   v2Client_Latest stub_net_http stub_json (stub_v2Client (stub_server 500 ''{}'')) ()
     sample_LatestRequest
     = Returned (LatestResponse_zero, Some ErrInvalidStatusCode) \<and>
   doRequest stub_net_http (stub_v2Client (stub_server 500 ''{}'')) () ''GET'' ''currencies''
     None (CurrenciesRequest_toParams sample_CurrenciesRequest)
     = Returned (Inr \<lparr>StatusCode = 500, Body = ''{}''\<rparr>) \<and>
   v2Client_Currencies stub_net_http stub_json (stub_v2Client (stub_server 500 ''{}'')) ()
     sample_CurrenciesRequest
     = Returned (CurrenciesResponse_zero, Some ErrInvalidStatusCode) \<and>
   doRequest stub_net_http (stub_v2Client (stub_server 500 ''{}'')) () ''GET'' ''historical''
     None (HistoricalRequest_toParams sample_HistoricalRequest)
     = Returned (Inr \<lparr>StatusCode = 500, Body = ''{}''\<rparr>) \<and>
   v2Client_Historical stub_net_http stub_json (stub_v2Client (stub_server 500 ''{}'')) ()
     sample_HistoricalRequest
     = Returned (HistoricalResponse_zero, Some ErrInvalidStatusCode) \<and>
   doRequest stub_net_http (stub_v2Client (stub_server 500 ''{}'')) () ''GET'' ''status''
     None None
     = Returned (Inr \<lparr>StatusCode = 500, Body = ''{}''\<rparr>) \<and>
   v2Client_Status stub_net_http stub_json (stub_v2Client (stub_server 500 ''{}'')) ()
     = Returned (StatusResponse_zero, Some ErrInvalidStatusCode)"
  using invalid_status_code_otherwise [where lib = stub_net_http and js = stub_json
      and v = "stub_v2Client (stub_server 500 ''{}'')" and ctx = "()"
      and res = "\<lparr>StatusCode = 500, Body = ''{}''\<rparr>"
      and lr = sample_LatestRequest and cr = sample_CurrenciesRequest
      and hr = sample_HistoricalRequest]
  by (simp add: doRequest_stub_server)

subsection \<open>Errors of the transport and of the decoder\<close>

text \<open>
  Claim C3. An error is handed to the caller as it was produced. \<open>doRequest\<close> returns the
  error of \<open>NewRequestWithContext\<close>, and the error that \<open>Do\<close> gives for the request it was
  sent (a failed connection, a cancelled context), unchanged. Each operation returns the
  error of \<open>doRequest\<close> unchanged, and the error of the JSON decoder on the body of a 200
  response unchanged; in each of these cases the result paired with the error is the zero
  value of the result structure.
\<close>

theorem errors_returned_as_produced:
  "(NewRequestWithContext lib ctx meth (baseURL v @ path) body = Inl e \<longrightarrow>
    doRequest lib v ctx meth path body query = Returned (Inl e)) \<and>
   (NewRequestWithContext lib ctx meth (baseURL v @ path) body = Inr req \<and>
    httpClient v = Some Do \<and>
    Do (set_RawQuery lib
          (Header_Set lib (Header_Set lib req ''apikey'' (apiKey v))
             ''Content-Type'' ''application/json'')
          (Values_Encode lib
             (fold (\<lambda>(k, x) q. Values_Add q k x) (range_entries query)
                (URL_Query lib
                   (Header_Set lib (Header_Set lib req ''apikey'' (apiKey v))
                      ''Content-Type'' ''application/json''))))) = Inl e \<longrightarrow>
    doRequest lib v ctx meth path body query = Returned (Inl e)) \<and>
   (doRequest lib v ctx ''GET'' ''latest'' None (LatestRequest_toParams lr) = Returned (Inl e) \<longrightarrow>
    v2Client_Latest lib js v ctx lr = Returned (LatestResponse_zero, Some e)) \<and>
   (doRequest lib v ctx ''GET'' ''currencies'' None (CurrenciesRequest_toParams cr)
      = Returned (Inl e) \<longrightarrow>
    v2Client_Currencies lib js v ctx cr = Returned (CurrenciesResponse_zero, Some e)) \<and>
   (doRequest lib v ctx ''GET'' ''historical'' None (HistoricalRequest_toParams hr)
      = Returned (Inl e) \<longrightarrow>
    v2Client_Historical lib js v ctx hr = Returned (HistoricalResponse_zero, Some e)) \<and>
   (doRequest lib v ctx ''GET'' ''status'' None None = Returned (Inl e) \<longrightarrow>
    v2Client_Status lib js v ctx = Returned (StatusResponse_zero, Some e)) \<and>
   (doRequest lib v ctx ''GET'' ''latest'' None (LatestRequest_toParams lr) = Returned (Inr res) \<and>
    StatusCode res = 200 \<and> Decode_latestResponse js (Body res) = Inl e \<longrightarrow>
    v2Client_Latest lib js v ctx lr = Returned (LatestResponse_zero, Some e)) \<and>
   (doRequest lib v ctx ''GET'' ''currencies'' None (CurrenciesRequest_toParams cr)
      = Returned (Inr res) \<and>
    StatusCode res = 200 \<and> Decode_currenciesResponse js (Body res) = Inl e \<longrightarrow>
    v2Client_Currencies lib js v ctx cr = Returned (CurrenciesResponse_zero, Some e)) \<and>
   (doRequest lib v ctx ''GET'' ''historical'' None (HistoricalRequest_toParams hr)
      = Returned (Inr res) \<and>
    StatusCode res = 200 \<and> Decode_historicalResponse js (Body res) = Inl e \<longrightarrow>
    v2Client_Historical lib js v ctx hr = Returned (HistoricalResponse_zero, Some e)) \<and>
   (doRequest lib v ctx ''GET'' ''status'' None None = Returned (Inr res) \<and>
    StatusCode res = 200 \<and> Decode_statusResponse js (Body res) = Inl e \<longrightarrow>
    v2Client_Status lib js v ctx = Returned (StatusResponse_zero, Some e))"
  apply (intro conjI)
  subgoal by (simp add: doRequest_def)
  subgoal by (simp add: doRequest_def Let_def)
  by (simp_all add: v2Client_Latest_def v2Client_Currencies_def v2Client_Historical_def
      v2Client_Status_def)

theorem errors_returned_as_produced_witness:
  "NewRequestWithContext stub_net_http () ''G T''
     (baseURL (stub_v2Client stub_refused) @ ''latest'') None
     = Inl (Foreign ''net/http: invalid method'') \<and>
   doRequest stub_net_http (stub_v2Client stub_refused) () ''G T'' ''latest'' None None
     = Returned (Inl (Foreign ''net/http: invalid method'')) \<and>
   NewRequestWithContext stub_net_http () ''GET''
     (baseURL (stub_v2Client stub_refused) @ ''status'') None
     = Inr ''http://127.0.0.1/v1/status'' \<and>
   httpClient (stub_v2Client stub_refused)
     = Some (\<lambda>req. Inl (Foreign ''connect: connection refused'')) \<and>
   doRequest stub_net_http (stub_v2Client stub_refused) () ''GET'' ''status'' None None
     = Returned (Inl (Foreign ''connect: connection refused'')) \<and>
   doRequest stub_net_http (stub_v2Client stub_refused) () ''GET'' ''latest'' None
     (LatestRequest_toParams sample_LatestRequest)
     = Returned (Inl (Foreign ''connect: connection refused'')) \<and>
   v2Client_Latest stub_net_http stub_json (stub_v2Client stub_refused) () sample_LatestRequest
     = Returned (LatestResponse_zero, Some (Foreign ''connect: connection refused'')) \<and>
   doRequest stub_net_http (stub_v2Client stub_refused) () ''GET'' ''currencies'' None
     (CurrenciesRequest_toParams sample_CurrenciesRequest)
     = Returned (Inl (Foreign ''connect: connection refused'')) \<and>
   v2Client_Currencies stub_net_http stub_json (stub_v2Client stub_refused) ()
     sample_CurrenciesRequest
     = Returned (CurrenciesResponse_zero, Some (Foreign ''connect: connection refused'')) \<and>
   doRequest stub_net_http (stub_v2Client stub_refused) () ''GET'' ''historical'' None
     (HistoricalRequest_toParams sample_HistoricalRequest)
     = Returned (Inl (Foreign ''connect: connection refused'')) \<and>
   v2Client_Historical stub_net_http stub_json (stub_v2Client stub_refused) ()
     sample_HistoricalRequest
     = Returned (HistoricalResponse_zero, Some (Foreign ''connect: connection refused'')) \<and>
   v2Client_Status stub_net_http stub_json (stub_v2Client stub_refused) ()
     = Returned (StatusResponse_zero, Some (Foreign ''connect: connection refused'')) \<and>
   doRequest stub_net_http (stub_v2Client (stub_server 200 ''{'')) () ''GET'' ''latest'' None
     (LatestRequest_toParams sample_LatestRequest)
     = Returned (Inr \<lparr>StatusCode = 200, Body = ''{''\<rparr>) \<and>
   Decode_latestResponse stub_json ''{'' = Inl (Foreign ''unexpected EOF'') \<and>
   v2Client_Latest stub_net_http stub_json (stub_v2Client (stub_server 200 ''{'')) ()
     sample_LatestRequest
     = Returned (LatestResponse_zero, Some (Foreign ''unexpected EOF'')) \<and>
   doRequest stub_net_http (stub_v2Client (stub_server 200 ''{'')) () ''GET'' ''currencies'' None
     (CurrenciesRequest_toParams sample_CurrenciesRequest)
     = Returned (Inr \<lparr>StatusCode = 200, Body = ''{''\<rparr>) \<and>
   Decode_currenciesResponse stub_json ''{'' = Inl (Foreign ''unexpected EOF'') \<and>
   v2Client_Currencies stub_net_http stub_json (stub_v2Client (stub_server 200 ''{'')) ()
     sample_CurrenciesRequest
     = Returned (CurrenciesResponse_zero, Some (Foreign ''unexpected EOF'')) \<and>
   doRequest stub_net_http (stub_v2Client (stub_server 200 ''{'')) () ''GET'' ''historical'' None
     (HistoricalRequest_toParams sample_HistoricalRequest)
     = Returned (Inr \<lparr>StatusCode = 200, Body = ''{''\<rparr>) \<and>
   Decode_historicalResponse stub_json ''{'' = Inl (Foreign ''unexpected EOF'') \<and>
   v2Client_Historical stub_net_http stub_json (stub_v2Client (stub_server 200 ''{'')) ()
     sample_HistoricalRequest
     = Returned (HistoricalResponse_zero, Some (Foreign ''unexpected EOF'')) \<and>
   doRequest stub_net_http (stub_v2Client (stub_server 200 ''{'')) () ''GET'' ''status'' None None
     = Returned (Inr \<lparr>StatusCode = 200, Body = ''{''\<rparr>) \<and>
   Decode_statusResponse stub_json ''{'' = Inl (Foreign ''unexpected EOF'') \<and>
   v2Client_Status stub_net_http stub_json (stub_v2Client (stub_server 200 ''{'')) ()
     = Returned (StatusResponse_zero, Some (Foreign ''unexpected EOF''))"
proof -
  note invalid_method =
    errors_returned_as_produced [where lib = stub_net_http and ctx = "()" and meth = "''G T''"
      and v = "stub_v2Client stub_refused" and path = "''latest''" and body = None
      and query = None and e = "Foreign ''net/http: invalid method''"]
  note refused =
    errors_returned_as_produced [where lib = stub_net_http and js = stub_json and ctx = "()"
      and meth = "''GET''" and v = "stub_v2Client stub_refused" and path = "''status''"
      and body = None and query = None and req = "''http://127.0.0.1/v1/status''"
      and Do = "\<lambda>req. Inl (Foreign ''connect: connection refused'')"
      and e = "Foreign ''connect: connection refused''"
      and lr = sample_LatestRequest and cr = sample_CurrenciesRequest
      and hr = sample_HistoricalRequest]
  note truncated =
    errors_returned_as_produced [where lib = stub_net_http and js = stub_json and ctx = "()"
      and v = "stub_v2Client (stub_server 200 ''{'')"
      and res = "\<lparr>StatusCode = 200, Body = ''{''\<rparr>" and e = "Foreign ''unexpected EOF''"
      and lr = sample_LatestRequest and cr = sample_CurrenciesRequest
      and hr = sample_HistoricalRequest]
  have new: "NewRequestWithContext stub_net_http () ''G T''
     (baseURL (stub_v2Client stub_refused) @ ''latest'') None
     = Inl (Foreign ''net/http: invalid method'')"
    "NewRequestWithContext stub_net_http () ''GET''
     (baseURL (stub_v2Client stub_refused) @ ''status'') None
     = Inr ''http://127.0.0.1/v1/status''"
    "httpClient (stub_v2Client stub_refused)
     = Some (\<lambda>req. Inl (Foreign ''connect: connection refused''))"
    by (simp_all add: stub_net_http_def stub_v2Client_def stub_refused_def)
  have dec: "Decode_latestResponse stub_json ''{'' = Inl (Foreign ''unexpected EOF'')"
    "Decode_currenciesResponse stub_json ''{'' = Inl (Foreign ''unexpected EOF'')"
    "Decode_historicalResponse stub_json ''{'' = Inl (Foreign ''unexpected EOF'')"
    "Decode_statusResponse stub_json ''{'' = Inl (Foreign ''unexpected EOF'')"
    by (simp_all add: stub_json_def)
  show ?thesis
    using invalid_method refused truncated new dec
    by (simp add: doRequest_stub_server doRequest_stub_refused)
qed

subsection \<open>From the wire structure to the public structure\<close>

lemma toCurrenciesResponse_entries:
  "wf_map (currenciesResponse.Data r) \<Longrightarrow>
   CurrenciesResponse.Currencies (toCurrenciesResponse r) =
     Some (map (\<lambda>(key, value). (key, toCurrencyItem value))
             (range_entries (currenciesResponse.Data r)))"
  using fold_update_fresh [of "range_entries (currenciesResponse.Data r)" "[]" toCurrencyItem]
  by (simp add: toCurrenciesResponse_def wf_map_def)

lemma toCurrenciesResponse_lookup:
  "wf_map (currenciesResponse.Data r) \<Longrightarrow>
   lookup (CurrenciesResponse.Currencies (toCurrenciesResponse r)) k =
     map_option toCurrencyItem (lookup (currenciesResponse.Data r) k)"
  by (cases "currenciesResponse.Data r") (simp_all add: toCurrenciesResponse_entries map_of_map)

lemma toCurrencyItem_inj: "toCurrencyItem a = toCurrencyItem b \<Longrightarrow> a = b"
  by (cases a, cases b) (simp add: toCurrencyItem_def)

lemma toLatestResponse_inj: "toLatestResponse a = toLatestResponse b \<Longrightarrow> a = b"
  by (cases a, cases b) (simp add: toLatestResponse_def)

lemma toStatusResponse_inj:
  assumes eq: "toStatusResponse a = toStatusResponse b"
  shows "a = b"
proof -
  obtain qa where a: "a = \<lparr>Quotas = qa\<rparr>" by (cases a) simp
  obtain qb where b: "b = \<lparr>Quotas = qb\<rparr>" by (cases b) simp
  obtain ma where qa: "qa = \<lparr>statusResponse_Quotas.Month = ma\<rparr>" by (cases qa) simp
  obtain mb where qb: "qb = \<lparr>statusResponse_Quotas.Month = mb\<rparr>" by (cases qb) simp
  from eq show ?thesis
    by (cases ma, cases mb) (simp add: toStatusResponse_def a b qa qb)
qed

text \<open>
  The historical result holds the rates of the first entry visited, or the nil map when
  there is no entry.
\<close>

lemma toHistoricalResponse_first:
  "HistoricalResponse.Rates (toHistoricalResponse r) =
     (case range_entries (historicalResponse.Data r) of
        [] \<Rightarrow> None
      | (date, rates) # _ \<Rightarrow> rates)"
  by (cases "historicalResponse.Data r")
     (auto simp: toHistoricalResponse_def index_def split: list.split)

text \<open>
  Claim C4, as stated: for all four response types the public structure holds exactly the
  information of the wire structure, nothing lost. It fails for the historical response.
  A wire value with the dates 2022-09-04 and 2022-09-05 and a wire value with the date
  2022-09-04 alone differ in what they hold for 2022-09-05, and have the same public
  structure: the rates of 2022-09-05 are lost.
\<close>

theorem historical_flattening_loses_dates:
  "toHistoricalResponse two_dates = toHistoricalResponse one_date \<and>
   lookup (historicalResponse.Data two_dates) ''2022-09-05''
     = Some (Some [(''EUR'', 0x4000000000000000)]) \<and>
   lookup (historicalResponse.Data one_date) ''2022-09-05'' = None \<and>
   HistoricalResponse.Rates (toHistoricalResponse two_dates) = Some [(''EUR'', 0x3FF0000000000000)]"
  by (simp add: toHistoricalResponse_def index_def two_dates_def one_date_def)

text \<open>
  Claim C4, amended. The mapping copies and computes nothing. For the latest response
  \<open>Rates\<close> is the wire's data map itself. For the currencies response the result holds
  the keys of the wire's data, each with an item of the same seven field values, in a map
  that is not nil. For the status response the three quota fields are copied. For these
  three, wire values with the same public structure are equal (for the currencies
  response: items with the same public item are equal), so nothing is lost. For the
  historical response \<open>Rates\<close> is the rate map of one date of the wire's data, the first
  one the iteration visits, or the nil map when the data has no entry; the date itself and
  the rate maps of the other dates are not kept.
\<close>

theorem wire_to_public_mapping:
  "LatestResponse.Rates (toLatestResponse l) = latestResponse.Data l \<and>
   (toLatestResponse l = toLatestResponse l' \<longrightarrow> l = l') \<and>
   (wf_map (currenciesResponse.Data c) \<longrightarrow>
      lookup (CurrenciesResponse.Currencies (toCurrenciesResponse c)) k =
        map_option toCurrencyItem (lookup (currenciesResponse.Data c) k)) \<and>
   CurrenciesResponse.Currencies (toCurrenciesResponse c) \<noteq> None \<and>
   CurrencyItem.Symbol (toCurrencyItem i) = currencyResponseItem.Symbol i \<and>
   CurrencyItem.Name (toCurrencyItem i) = currencyResponseItem.Name i \<and>
   CurrencyItem.SymbolNative (toCurrencyItem i) = currencyResponseItem.SymbolNative i \<and>
   CurrencyItem.DecimalDigits (toCurrencyItem i) = currencyResponseItem.DecimalDigits i \<and>
   CurrencyItem.Rounding (toCurrencyItem i) = currencyResponseItem.Rounding i \<and>
   CurrencyItem.Code (toCurrencyItem i) = currencyResponseItem.Code i \<and>
   CurrencyItem.NamePlural (toCurrencyItem i) = currencyResponseItem.NamePlural i \<and>
   (toCurrencyItem i = toCurrencyItem i' \<longrightarrow> i = i') \<and>
   StatusItem.Total (StatusResponse.Month (toStatusResponse s)) =
     statusResponse_Month.Total (statusResponse_Quotas.Month (Quotas s)) \<and>
   StatusItem.Used (StatusResponse.Month (toStatusResponse s)) =
     statusResponse_Month.Used (statusResponse_Quotas.Month (Quotas s)) \<and>
   StatusItem.Remaining (StatusResponse.Month (toStatusResponse s)) =
     statusResponse_Month.Remaining (statusResponse_Quotas.Month (Quotas s)) \<and>
   (toStatusResponse s = toStatusResponse s' \<longrightarrow> s = s') \<and>
   HistoricalResponse.Rates (toHistoricalResponse h) =
     (case range_entries (historicalResponse.Data h) of
        [] \<Rightarrow> None
      | (date, rates) # _ \<Rightarrow> rates)"
  apply (intro conjI)
  subgoal by (simp add: toLatestResponse_def)
  subgoal using toLatestResponse_inj by blast
  subgoal by (simp add: toCurrenciesResponse_lookup)
  subgoal by (simp add: toCurrenciesResponse_def)
  subgoal by (simp add: toCurrencyItem_def)
  subgoal by (simp add: toCurrencyItem_def)
  subgoal by (simp add: toCurrencyItem_def)
  subgoal by (simp add: toCurrencyItem_def)
  subgoal by (simp add: toCurrencyItem_def)
  subgoal by (simp add: toCurrencyItem_def)
  subgoal by (simp add: toCurrencyItem_def)
  subgoal using toCurrencyItem_inj by blast
  subgoal by (simp add: toStatusResponse_def)
  subgoal by (simp add: toStatusResponse_def)
  subgoal by (simp add: toStatusResponse_def)
  subgoal using toStatusResponse_inj by blast
  by (rule toHistoricalResponse_first)

theorem wire_to_public_mapping_witness:
  "LatestResponse.Rates (toLatestResponse \<lparr>latestResponse.Data = Some [(''AED'', 0x400D626D4801F751)]\<rparr>)
     = Some [(''AED'', 0x400D626D4801F751)] \<and>
   wf_map (Some [(''USD'', sample_currencyResponseItem)]) \<and>
   lookup (CurrenciesResponse.Currencies
             (toCurrenciesResponse
                \<lparr>currenciesResponse.Data = Some [(''USD'', sample_currencyResponseItem)]\<rparr>)) ''USD''
     = Some (toCurrencyItem sample_currencyResponseItem) \<and>
   CurrencyItem.Code (toCurrencyItem sample_currencyResponseItem) = ''USD'' \<and>
   CurrencyItem.DecimalDigits (toCurrencyItem sample_currencyResponseItem) = 2 \<and>
   toCurrencyItem sample_currencyResponseItem = toCurrencyItem sample_currencyResponseItem \<and>
   StatusItem.Total (StatusResponse.Month (toStatusResponse sample_statusResponse)) = 300 \<and>
   StatusItem.Used (StatusResponse.Month (toStatusResponse sample_statusResponse)) = 71 \<and>
   StatusItem.Remaining (StatusResponse.Month (toStatusResponse sample_statusResponse)) = 229 \<and>
   toStatusResponse sample_statusResponse = toStatusResponse sample_statusResponse \<and>
   HistoricalResponse.Rates (toHistoricalResponse two_dates) = Some [(''EUR'', 0x3FF0000000000000)]"
  using wire_to_public_mapping
    [where l = "\<lparr>latestResponse.Data = Some [(''AED'', 0x400D626D4801F751)]\<rparr>"
       and l' = "\<lparr>latestResponse.Data = Some [(''AED'', 0x400D626D4801F751)]\<rparr>"
       and c = "\<lparr>currenciesResponse.Data = Some [(''USD'', sample_currencyResponseItem)]\<rparr>"
       and k = "''USD''"
       and i = sample_currencyResponseItem and i' = sample_currencyResponseItem
       and s = sample_statusResponse and s' = sample_statusResponse and h = two_dates]
  by (simp add: wf_map_def sample_currencyResponseItem_def sample_statusResponse_def two_dates_def)

text \<open>
  Claim C5. For every historical wire response whose data map holds exactly one date, the
  \<open>Rates\<close> of the public response is the currency-to-rate map of that date.
\<close>

theorem single_date_rates:
  "historicalResponse.Data r = Some [(date, rates)] \<Longrightarrow>
   HistoricalResponse.Rates (toHistoricalResponse r) = rates"
  by (simp add: toHistoricalResponse_def index_def)

theorem single_date_rates_witness:
  "historicalResponse.Data one_date = Some [(''2022-09-04'', Some [(''EUR'', 0x3FF0000000000000)])] \<and>
   HistoricalResponse.Rates (toHistoricalResponse one_date) = Some [(''EUR'', 0x3FF0000000000000)]"
proof -
  have d: "historicalResponse.Data one_date
    = Some [(''2022-09-04'', Some [(''EUR'', 0x3FF0000000000000)])]"
    by (simp add: one_date_def)
  from d single_date_rates [OF d] show ?thesis by simp
qed

text \<open>
  Claim C9. For a historical wire response whose data map is empty (nil, or a map with no
  entry), the mapping returns the zero \<open>HistoricalResponse\<close>, whose \<open>Rates\<close> is the nil
  map: \<open>firstKey\<close> stays the empty string, and indexing the map with an absent key gives
  the zero value of the element type. The mapping has no failing branch.
\<close>

theorem empty_data_gives_zero_response:
  "toHistoricalResponse \<lparr>historicalResponse.Data = None\<rparr> = HistoricalResponse_zero \<and>
   toHistoricalResponse \<lparr>historicalResponse.Data = Some []\<rparr> = HistoricalResponse_zero \<and>
   HistoricalResponse.Rates HistoricalResponse_zero = None"
  by (simp add: toHistoricalResponse_def index_def HistoricalResponse_zero_def)

subsection \<open>Request encoding\<close>


text \<open>
  Claim C7. For every request with a non-empty list of currency codes (in a
  \<open>LatestRequest\<close>, a \<open>CurrenciesRequest\<close> or a \<open>HistoricalRequest\<close>) the parameter map
  holds the key \<open>currencies\<close> with the elements joined by a comma in list order. The list
  \<open>["EUR","GBP"]\<close> is joined to \<open>EUR,GBP\<close>.
\<close>

theorem currencies_joined_with_comma:
  "(LatestRequest.Currencies l \<noteq> [] \<longrightarrow>
      lookup (LatestRequest_toParams l) ''currencies''
        = Some (Join (LatestRequest.Currencies l) '','')) \<and>
   (CurrenciesRequest.Currencies c \<noteq> [] \<longrightarrow>
      lookup (CurrenciesRequest_toParams c) ''currencies''
        = Some (Join (CurrenciesRequest.Currencies c) '','')) \<and>
   (HistoricalRequest.Currencies h \<noteq> [] \<longrightarrow>
      lookup (HistoricalRequest_toParams h) ''currencies''
        = Some (Join (HistoricalRequest.Currencies h) '','')) \<and>
   Join (e # es) '','' = e @ concat (map (\<lambda>x. '','' @ x) es) \<and>
   Join [''EUR'', ''GBP''] '','' = ''EUR,GBP''"
  by (simp add: LatestRequest_toParams_def CurrenciesRequest_toParams_def
      HistoricalRequest_toParams_def Let_def update_conv' Join_Cons)

theorem currencies_joined_with_comma_witness:
  "LatestRequest.Currencies sample_LatestRequest \<noteq> [] \<and>
   lookup (LatestRequest_toParams sample_LatestRequest) ''currencies'' = Some ''EUR,GBP'' \<and>
   CurrenciesRequest.Currencies sample_CurrenciesRequest \<noteq> [] \<and>
   lookup (CurrenciesRequest_toParams sample_CurrenciesRequest) ''currencies'' = Some ''EUR,GBP'' \<and>
   lookup (HistoricalRequest_toParams
             \<lparr>Date = \<lparr>Year = 2022, Month = 9, Day = 4\<rparr>, HistoricalRequest.BaseCurrency = ''USD'',
              HistoricalRequest.Currencies = [''EUR'', ''GBP'']\<rparr>) ''currencies''
     = Some ''EUR,GBP''"
  using currencies_joined_with_comma [where l = sample_LatestRequest
      and c = sample_CurrenciesRequest
      and h = "\<lparr>Date = \<lparr>Year = 2022, Month = 9, Day = 4\<rparr>,
               HistoricalRequest.BaseCurrency = ''USD'',
               HistoricalRequest.Currencies = [''EUR'', ''GBP'']\<rparr>"]
  by (simp add: sample_LatestRequest_def sample_CurrenciesRequest_def)

text \<open>
  Claim C8. For every \<open>LatestRequest\<close> and \<open>CurrenciesRequest\<close> the parameter map leaves
  out the fields that are empty: with an empty base currency there is no key
  \<open>base_currency\<close>, with an empty currency list there is no key \<open>currencies\<close>, and a
  request with no field set encodes to the empty map.
\<close>

theorem empty_fields_omitted:
  "(LatestRequest.BaseCurrency l = '''' \<longrightarrow>
      lookup (LatestRequest_toParams l) ''base_currency'' = None) \<and>
   (LatestRequest.Currencies l = [] \<longrightarrow>
      lookup (LatestRequest_toParams l) ''currencies'' = None) \<and>
   (CurrenciesRequest.Currencies c = [] \<longrightarrow>
      lookup (CurrenciesRequest_toParams c) ''currencies'' = None) \<and>
   LatestRequest_toParams \<lparr>LatestRequest.BaseCurrency = '''', LatestRequest.Currencies = []\<rparr>
     = Some [] \<and>
   CurrenciesRequest_toParams \<lparr>CurrenciesRequest.Currencies = []\<rparr> = Some []"
  by (simp add: LatestRequest_toParams_def CurrenciesRequest_toParams_def Let_def update_conv')

theorem empty_fields_omitted_witness:
  "lookup (LatestRequest_toParams
             \<lparr>LatestRequest.BaseCurrency = '''', LatestRequest.Currencies = [''EUR'']\<rparr>)
     ''base_currency'' = None \<and>
   lookup (LatestRequest_toParams
             \<lparr>LatestRequest.BaseCurrency = ''USD'', LatestRequest.Currencies = []\<rparr>)
     ''currencies'' = None \<and>
   lookup (CurrenciesRequest_toParams \<lparr>CurrenciesRequest.Currencies = []\<rparr>) ''currencies''
     = None"
  using
    empty_fields_omitted
      [where l = "\<lparr>LatestRequest.BaseCurrency = '''', LatestRequest.Currencies = [''EUR'']\<rparr>"
         and c = "\<lparr>CurrenciesRequest.Currencies = []\<rparr>"]
    empty_fields_omitted
      [where l = "\<lparr>LatestRequest.BaseCurrency = ''USD'', LatestRequest.Currencies = []\<rparr>"]
  by simp

subsection \<open>Construction\<close>

text \<open>
  Claim C10. \<open>NewClient\<close> reads the first element of \<open>opts\<close> only: the client built from
  a list of options is the client built from its first element alone. Without options,
  with a nil first option, or with a first option whose fields are empty, the client has
  the default HTTP client and the default base URL; a field that is set is taken, and the
  API key is the one given.
\<close>

theorem only_first_option_used:
  "NewClient D B k (opt # rest) = NewClient D B k [opt] \<and>
   NewClient D B k [] = \<lparr>apiKey = k, httpClient = D, baseURL = B\<rparr> \<and>
   NewClient D B k (None # rest) = \<lparr>apiKey = k, httpClient = D, baseURL = B\<rparr> \<and>
   NewClient D B k (Some Options # rest) = \<lparr>apiKey = k, httpClient = D, baseURL = B\<rparr> \<and>
   httpClient (NewClient D B k (Some opt0 # rest)) =
     (case HTTPClient opt0 of None \<Rightarrow> D | Some c \<Rightarrow> Some c) \<and>
   baseURL (NewClient D B k (Some opt0 # rest)) =
     (if BaseURL opt0 = '''' then B else BaseURL opt0) \<and>
   apiKey (NewClient D B k opts) = k"
  by (simp add: NewClient_def Options_def Let_def split: option.split list.split)

end
